theory Spec2Isabelle
  imports Main "HOL-Library.Sublist"
begin

section \<open>JavaScript values\<close>

text \<open>
  The library is written in TypeScript and runs as JavaScript. The values that reach its
  functions are modelled by the datatype below. \<open>JObject\<close> is a plain object (what an
  object literal builds): a finite map from property names to values, modelled as a map
  \<open>string \<rightharpoonup> jsval\<close>, so that equality of two plain objects is structural equality
  (same own properties, same values, in any order). \<open>JArray\<close> is an array with its
  elements and nothing else; an array is never equal to a plain object. Object identity,
  getters, objects of other classes and extra properties on arrays are not modelled; a
  function value is an opaque identifier without own properties.
\<close>

datatype jsval =
    JUndefined
  | JNull
  | JBoolean bool
  | JNumber int
  | JString string
  | JFunction nat
  | JArray "jsval list"
  | JObject "string \<Rightarrow> jsval option"

text \<open>
  A \<open>TypeError\<close> is the only exception these functions can raise. \<open>Untyped\<close> marks a
  state that the TypeScript types of the functions exclude (a reference to an object of
  another kind than the declared one); the model stops there.
\<close>

datatype error = TypeError | Untyped

text \<open>Sequencing of computations that may throw.\<close>

fun ebind :: "error + 'a \<Rightarrow> ('a \<Rightarrow> error + 'b) \<Rightarrow> error + 'b" where
  "ebind (Inl e) f = Inl e"
| "ebind (Inr x) f = f x"

text \<open>The \<open>typeof\<close> operator. Note \<open>typeof null === 'object'\<close>.\<close>

fun typeof :: "jsval \<Rightarrow> string" where
  "typeof JUndefined = ''undefined''"
| "typeof JNull = ''object''"
| "typeof (JBoolean b) = ''boolean''"
| "typeof (JNumber n) = ''number''"
| "typeof (JString s) = ''string''"
| "typeof (JFunction f) = ''function''"
| "typeof (JArray xs) = ''object''"
| "typeof (JObject m) = ''object''"

text \<open>
  The own enumerable properties of an array are its elements, under the decimal numerals
  of their indices; its \<open>length\<close> is an own property that is not enumerable.
\<close>

fun decimal :: "nat \<Rightarrow> string" where
  "decimal n =
     (if n < 10 then [''0123456789'' ! n]
      else decimal (n div 10) @ [''0123456789'' ! (n mod 10)])"

definition array_props :: "jsval list \<Rightarrow> (string \<rightharpoonup> jsval)" where
  "array_props xs = map_of (zip (map decimal [0..<length xs]) xs)"

text \<open>
  The \<open>in\<close> operator, \<open>k in thing\<close>: its right operand must be an object, otherwise a
  \<open>TypeError\<close> is thrown; \<open>null\<close> is not an object.
\<close>

fun js_in :: "string \<Rightarrow> jsval \<Rightarrow> error + bool" where
  "js_in k (JObject m) = Inr (m k \<noteq> None)"
| "js_in k (JArray xs) = Inr (k = ''length'' \<or> array_props xs k \<noteq> None)"
| "js_in k (JFunction f) = Inr False"
| "js_in k _ = Inl TypeError"

text \<open>
  Member access \<open>thing.k\<close>: throws on \<open>undefined\<close> and \<open>null\<close>, reads the property of an
  object or an array (\<open>undefined\<close> when absent). The property names this program reads
  (\<open>__OPAQUE__\<close>, \<open>__OPAQUE_KEY__\<close>, \<open>__OPAQUE_VARIATION__\<close>, \<open>value\<close>, \<open>_tag\<close>,
  \<open>_variation\<close> and the payload property given to a lens) are taken to exist on no
  primitive, so a primitive yields \<open>undefined\<close>.
\<close>

fun get_prop :: "jsval \<Rightarrow> string \<Rightarrow> error + jsval" where
  "get_prop JUndefined k = Inl TypeError"
| "get_prop JNull k = Inl TypeError"
| "get_prop (JObject m) k = Inr (case m k of None \<Rightarrow> JUndefined | Some x \<Rightarrow> x)"
| "get_prop (JArray xs) k =
     Inr (case array_props xs k of
            Some x \<Rightarrow> x
          | None \<Rightarrow> if k = ''length'' then JNumber (int (length xs)) else JUndefined)"
| "get_prop _ k = Inr JUndefined"

text \<open>
  \<open>names.indexOf(x)\<close> and \<open>variations.includes(x)\<close> on an array of strings (the result
  of \<open>Object.keys\<close>): only a string value equal to an element is found.
\<close>

fun indexOf_from :: "string list \<Rightarrow> jsval \<Rightarrow> int \<Rightarrow> int" where
  "indexOf_from [] x i = - 1"
| "indexOf_from (y # ys) x i = (if x = JString y then i else indexOf_from ys x (i + 1))"

definition indexOf :: "string list \<Rightarrow> jsval \<Rightarrow> int" where
  "indexOf xs x = indexOf_from xs x 0"

definition js_includes :: "string list \<Rightarrow> jsval \<Rightarrow> bool" where
  "js_includes xs x = (x \<in> set (map JString xs))"

section \<open>Opaque representation\<close>

text \<open>
  Every constructor of \<open>ofVariations\<close> returns the object literal
  \<^verbatim>\<open>{ __OPAQUE__: '__OPAQUE__', __OPAQUE_KEY__: name, __OPAQUE_VARIATION__: variation, value }\<close>.
\<close>

definition opaque :: "jsval \<Rightarrow> jsval \<Rightarrow> jsval \<Rightarrow> jsval" where
  "opaque name variation val =
     JObject [''__OPAQUE__'' \<mapsto> JString ''__OPAQUE__'',
              ''__OPAQUE_KEY__'' \<mapsto> name,
              ''__OPAQUE_VARIATION__'' \<mapsto> variation,
              ''value'' \<mapsto> val]"

section \<open>Guards\<close>

text \<open>
  The test every guard starts with, after its \<open>typeof\<close> check:
  \<^verbatim>\<open>'__OPAQUE__' in thing && thing.__OPAQUE__ === '__OPAQUE__' &&
  '__OPAQUE_KEY__' in thing && '__OPAQUE_VARIATION__' in thing\<close>,
  evaluated left to right with short circuit.
\<close>

definition has_marker :: "jsval \<Rightarrow> error + bool" where
  "has_marker thing =
     ebind (js_in ''__OPAQUE__'' thing) (\<lambda>a.
       if \<not> a then Inr False
       else ebind (get_prop thing ''__OPAQUE__'') (\<lambda>m.
         if m \<noteq> JString ''__OPAQUE__'' then Inr False
         else ebind (js_in ''__OPAQUE_KEY__'' thing) (\<lambda>b.
           if \<not> b then Inr False
           else js_in ''__OPAQUE_VARIATION__'' thing)))"

text \<open>The global guard \<open>isAll\<close> (exported as \<open>is\<close>), closed over \<open>names\<close> and \<open>variations\<close>.\<close>

definition isAll :: "string list \<Rightarrow> string list \<Rightarrow> jsval \<Rightarrow> error + bool" where
  "isAll names variations thing =
     (if typeof thing \<noteq> ''object'' then Inr False
      else ebind (has_marker thing) (\<lambda>marked.
        if \<not> marked then Inr False
        else ebind (get_prop thing ''__OPAQUE_KEY__'') (\<lambda>key.
          let keyIndex = indexOf names key in
          if keyIndex = - 1 then Inr False
          else ebind (get_prop thing ''__OPAQUE_VARIATION__'') (\<lambda>variation.
            if js_includes variations variation then Inr True else Inr False))))"

section \<open>Constructors\<close>

text \<open>
  A function called with fewer arguments than parameters sees \<open>undefined\<close> for the
  missing ones.
\<close>

definition arg :: "jsval list \<Rightarrow> nat \<Rightarrow> jsval" where
  "arg args i = (if i < length args then args ! i else JUndefined)"

text \<open>
  The closures that \<open>ofVariations\<close> creates for construction, each with the variables it
  captures: \<open>defaultOf\<close> of \<open>ofsTypes\<close> (captures \<open>name\<close>), the function stored as
  \<open>defaultOf[variation]\<close> there, \<open>defaultOf\<close> of \<open>ofsVariations\<close> (captures
  \<open>variation\<close>) and the function stored as \<open>defaultOf[name]\<close> there.
\<close>

datatype of_closure =
    OfsTypes string
  | OfsTypes_variation string string
  | OfsVariations string
  | OfsVariations_name string string

text \<open>
  Calling one of them with an argument list. \<open>defaultOf\<close> of \<open>ofsTypes\<close> tests
  \<open>arguments.length <= 1\<close> and then moves its first argument to \<open>value\<close> and sets
  \<open>variation\<close> to \<open>'default'\<close>.
\<close>

fun call_of :: "of_closure \<Rightarrow> jsval list \<Rightarrow> jsval" where
  "call_of (OfsTypes name) args =
     (let variation = arg args 0; val = arg args 1 in
      if length args \<le> 1
      then opaque (JString name) (JString ''default'') variation
      else opaque (JString name) variation val)"
| "call_of (OfsTypes_variation name variation) args =
     opaque (JString name) (JString variation) (arg args 0)"
| "call_of (OfsVariations variation) args =
     opaque (arg args 0) (JString variation) (arg args 1)"
| "call_of (OfsVariations_name variation name) args =
     opaque (JString name) (JString variation) (arg args 0)"

text \<open>The global constructor \<open>ofAll\<close> (exported as \<open>of\<close>).\<close>

definition ofAll :: "jsval \<Rightarrow> jsval \<Rightarrow> jsval \<Rightarrow> jsval" where
  "ofAll name variation val = opaque name variation val"

text \<open>
  The tables of functions. \<open>ofsTypes\<close> and \<open>ofsVariations\<close> are built by \<open>reduce\<close>
  with \<open>{...local, [key]: defaultOf}\<close>; the properties of each \<open>defaultOf\<close> are assigned
  by a \<open>forEach\<close>. A later assignment to the same key replaces the earlier one.
\<close>

definition ofsTypes :: "string list \<Rightarrow> (string \<rightharpoonup> of_closure)" where
  "ofsTypes names =
     fold (\<lambda>name localOfTypes. localOfTypes(name \<mapsto> OfsTypes name)) names Map.empty"

definition ofsVariations :: "string list \<Rightarrow> (string \<rightharpoonup> of_closure)" where
  "ofsVariations variations =
     fold (\<lambda>variation localOfVariations.
             localOfVariations(variation \<mapsto> OfsVariations variation)) variations Map.empty"

fun of_props :: "string list \<Rightarrow> string list \<Rightarrow> of_closure \<Rightarrow> (string \<rightharpoonup> of_closure)" where
  "of_props names variations (OfsTypes name) =
     fold (\<lambda>variation props. props(variation \<mapsto> OfsTypes_variation name variation))
       variations Map.empty"
| "of_props names variations (OfsVariations variation) =
     fold (\<lambda>name props. props(name \<mapsto> OfsVariations_name variation name))
       names Map.empty"
| "of_props names variations _ = Map.empty"

text \<open>
  The properties of \<open>ofAll\<close>: first \<open>ofAll[name] = ofsTypes[name]\<close> for every name, then
  \<open>ofAll[variation] = ofsVariations[variation]\<close> for every variation.
\<close>

definition ofAll_props :: "string list \<Rightarrow> string list \<Rightarrow> (string \<rightharpoonup> of_closure)" where
  "ofAll_props names variations =
     fold (\<lambda>variation props. props(variation := ofsVariations variations variation)) variations
       (fold (\<lambda>name props. props(name := ofsTypes names name)) names Map.empty)"

text \<open>
  The access paths \<open>of[k](args)\<close> and \<open>of[k1][k2](args)\<close>. Calling \<open>undefined\<close>, or
  reading a property of \<open>undefined\<close>, throws a \<open>TypeError\<close>.
\<close>

definition of_at :: "string list \<Rightarrow> string list \<Rightarrow> string \<Rightarrow> jsval list \<Rightarrow> error + jsval" where
  "of_at names variations k args =
     (case ofAll_props names variations k of
        None \<Rightarrow> Inl TypeError
      | Some f \<Rightarrow> Inr (call_of f args))"

definition of_at2 ::
  "string list \<Rightarrow> string list \<Rightarrow> string \<Rightarrow> string \<Rightarrow> jsval list \<Rightarrow> error + jsval" where
  "of_at2 names variations k1 k2 args =
     (case ofAll_props names variations k1 of
        None \<Rightarrow> Inl TypeError
      | Some f \<Rightarrow>
          (case of_props names variations f k2 of
             None \<Rightarrow> Inl TypeError
           | Some g \<Rightarrow> Inr (call_of g args)))"

section \<open>Scoped guards\<close>

text \<open>
  The closures that \<open>ofVariations\<close> creates for narrowing: \<open>defaultIs\<close> of \<open>isTypes\<close>
  (captures \<open>name\<close>), the function stored as \<open>defaultIs[variation]\<close> there, \<open>defaultIs\<close>
  of \<open>isVariations\<close> (captures \<open>variation\<close>) and the function stored as
  \<open>defaultIs[name]\<close> there.
\<close>

datatype is_closure =
    IsTypes string
  | IsTypes_variation string string
  | IsVariations string
  | IsVariations_name string string

fun call_is :: "string list \<Rightarrow> string list \<Rightarrow> is_closure \<Rightarrow> jsval \<Rightarrow> error + bool" where
  "call_is names variations (IsTypes name) thing =
     (if typeof thing \<noteq> ''object'' then Inr False
      else ebind (has_marker thing) (\<lambda>marked.
        if \<not> marked then Inr False
        else ebind (get_prop thing ''__OPAQUE_KEY__'') (\<lambda>key.
          if key \<noteq> JString name then Inr False
          else ebind (get_prop thing ''__OPAQUE_VARIATION__'') (\<lambda>variation.
            if js_includes variations variation then Inr True else Inr False))))"
| "call_is names variations (IsTypes_variation name variation) thing =
     (if typeof thing \<noteq> ''object'' then Inr False
      else ebind (has_marker thing) (\<lambda>marked.
        if \<not> marked then Inr False
        else ebind (get_prop thing ''__OPAQUE_KEY__'') (\<lambda>key.
          if key \<noteq> JString name then Inr False
          else ebind (get_prop thing ''__OPAQUE_VARIATION__'') (\<lambda>var.
            if var = JString variation then Inr True else Inr False))))"
| "call_is names variations (IsVariations variation) thing =
     (if typeof thing \<noteq> ''object'' then Inr False
      else ebind (has_marker thing) (\<lambda>marked.
        if \<not> marked then Inr False
        else ebind (get_prop thing ''__OPAQUE_VARIATION__'') (\<lambda>var.
          if var \<noteq> JString variation then Inr False
          else ebind (get_prop thing ''__OPAQUE_KEY__'') (\<lambda>key.
            if js_includes names key then Inr True else Inr False))))"
| "call_is names variations (IsVariations_name variation name) thing =
     (if typeof thing \<noteq> ''object'' then Inr False
      else ebind (has_marker thing) (\<lambda>marked.
        if \<not> marked then Inr False
        else ebind (get_prop thing ''__OPAQUE_KEY__'') (\<lambda>key.
          if key \<noteq> JString name then Inr False
          else ebind (get_prop thing ''__OPAQUE_VARIATION__'') (\<lambda>var.
            if var = JString variation then Inr True else Inr False))))"

definition isTypes :: "string list \<Rightarrow> (string \<rightharpoonup> is_closure)" where
  "isTypes names =
     fold (\<lambda>name localIsTypes. localIsTypes(name \<mapsto> IsTypes name)) names Map.empty"

definition isVariations :: "string list \<Rightarrow> (string \<rightharpoonup> is_closure)" where
  "isVariations variations =
     fold (\<lambda>variation localIsVariations.
             localIsVariations(variation \<mapsto> IsVariations variation)) variations Map.empty"

fun is_props :: "string list \<Rightarrow> string list \<Rightarrow> is_closure \<Rightarrow> (string \<rightharpoonup> is_closure)" where
  "is_props names variations (IsTypes name) =
     fold (\<lambda>variation props. props(variation \<mapsto> IsTypes_variation name variation))
       variations Map.empty"
| "is_props names variations (IsVariations variation) =
     fold (\<lambda>name props. props(name \<mapsto> IsVariations_name variation name))
       names Map.empty"
| "is_props names variations _ = Map.empty"

text \<open>
  The properties of \<open>isAll\<close>: first \<open>isAll[name] = isTypes[name]\<close> for every name, then
  \<open>isAll[variation] = isVariations[variation]\<close> for every variation.
\<close>

definition isAll_props :: "string list \<Rightarrow> string list \<Rightarrow> (string \<rightharpoonup> is_closure)" where
  "isAll_props names variations =
     fold (\<lambda>variation props. props(variation := isVariations variations variation)) variations
       (fold (\<lambda>name props. props(name := isTypes names name)) names Map.empty)"

text \<open>The access paths \<open>is[k](thing)\<close> and \<open>is[k1][k2](thing)\<close>.\<close>

definition is_at :: "string list \<Rightarrow> string list \<Rightarrow> string \<Rightarrow> jsval \<Rightarrow> error + bool" where
  "is_at names variations k thing =
     (case isAll_props names variations k of
        None \<Rightarrow> Inl TypeError
      | Some f \<Rightarrow> call_is names variations f thing)"

definition is_at2 ::
  "string list \<Rightarrow> string list \<Rightarrow> string \<Rightarrow> string \<Rightarrow> jsval \<Rightarrow> error + bool" where
  "is_at2 names variations k1 k2 thing =
     (case isAll_props names variations k1 of
        None \<Rightarrow> Inl TypeError
      | Some f \<Rightarrow>
          (case is_props names variations f k2 of
             None \<Rightarrow> Inl TypeError
           | Some g \<Rightarrow> call_is names variations g thing))"

section \<open>Optics\<close>

text \<open>
  Object spread \<open>{...x}\<close> and the rest pattern \<open>{a, ...rest}\<close> copy the own enumerable
  properties of \<open>x\<close> into a new plain object: those of a plain object, the elements of an
  array, the characters of a string (like the array of its characters), and nothing for
  every other value (\<open>undefined\<close> and \<open>null\<close> included). The copy of an array is a plain
  object with index keys, not an array.
\<close>

fun own_props :: "jsval \<Rightarrow> (string \<rightharpoonup> jsval)" where
  "own_props (JObject m) = m"
| "own_props (JArray xs) = array_props xs"
| "own_props (JString s) = array_props (map (\<lambda>c. JString [c]) s)"
| "own_props _ = Map.empty"

text \<open>
  The global isomorphism \<open>iso\<close>. Its forward direction is
  \<^verbatim>\<open>(opaque) => ({ _tag: opaque.__OPAQUE_KEY__, _variation: opaque.__OPAQUE_VARIATION__, ...opaque.value })\<close>:
  the properties of the payload are written after the two tags and replace them when they
  have the same name. Its backward direction is
  \<^verbatim>\<open>({ _tag, _variation, ...value }) => ({ __OPAQUE__: '__OPAQUE__', __OPAQUE_KEY__: _tag, __OPAQUE_VARIATION__: _variation, value })\<close>:
  destructuring throws on \<open>undefined\<close> and \<open>null\<close>, and \<open>value\<close> receives the remaining
  own properties.
\<close>

definition iso_get :: "jsval \<Rightarrow> error + jsval" where
  "iso_get opq =
     ebind (get_prop opq ''__OPAQUE_KEY__'') (\<lambda>tag.
     ebind (get_prop opq ''__OPAQUE_VARIATION__'') (\<lambda>variation.
     ebind (get_prop opq ''value'') (\<lambda>val.
       Inr (JObject ([''_tag'' \<mapsto> tag, ''_variation'' \<mapsto> variation] ++ own_props val)))))"

definition iso_reverseGet :: "jsval \<Rightarrow> error + jsval" where
  "iso_reverseGet tagged =
     ebind (get_prop tagged ''_tag'') (\<lambda>tag.
     ebind (get_prop tagged ''_variation'') (\<lambda>variation.
       Inr (opaque tag variation
              (JObject ((own_props tagged)(''_tag'' := None, ''_variation'' := None))))))"

text \<open>
  Modelled from the spec: the lens of a property and its composition with an isomorphism,
  which the code takes from the library monocle-ts (\<open>Lens.fromProp()(prop)\<close> and
  \<open>iso.composeLens(lens)\<close>) and which are not part of this repository. The spec describes
  a property lens as the composition of the isomorphism with a plain-property accessor:
  \<open>get\<close> reads the property, \<open>set\<close> returns a copy of the object with the property
  replaced (\<open>Object.assign({}, s, {[prop]: a})\<close>); the composed lens reads through
  \<open>iso.get\<close> and writes back through \<open>iso.reverseGet\<close>.
\<close>

definition prop_get :: "string \<Rightarrow> jsval \<Rightarrow> error + jsval" where
  "prop_get prop s = get_prop s prop"

definition prop_set :: "string \<Rightarrow> jsval \<Rightarrow> jsval \<Rightarrow> jsval" where
  "prop_set prop a s = JObject ((own_props s)(prop \<mapsto> a))"

text \<open>The global \<open>lensFromProp(prop)\<close>, that is \<open>iso.composeLens(Lens.fromProp()(prop))\<close>.\<close>

definition lensFromProp_get :: "string \<Rightarrow> jsval \<Rightarrow> error + jsval" where
  "lensFromProp_get prop opq = ebind (iso_get opq) (prop_get prop)"

definition lensFromProp_set :: "string \<Rightarrow> jsval \<Rightarrow> jsval \<Rightarrow> error + jsval" where
  "lensFromProp_set prop a opq =
     ebind (iso_get opq) (\<lambda>tagged. iso_reverseGet (prop_set prop a tagged))"

text \<open>
  The scoped isomorphisms of \<open>forTypes\<close> are \<open>new Iso(get, reverseGet)\<close> with
  \<open>get = (opaque) => opaque.value\<close> and with \<open>reverseGet\<close> one of the constructors:
  \<open>ofsTypes[name].default\<close> for the slice of a name, \<open>ofsTypes[name][variation]\<close> for
  each variation below it. A constructor that does not exist is \<open>undefined\<close>, and calling
  it throws.
\<close>

definition scoped_get :: "jsval \<Rightarrow> error + jsval" where
  "scoped_get opq = get_prop opq ''value''"

definition scoped_reverseGet :: "of_closure option \<Rightarrow> jsval \<Rightarrow> error + jsval" where
  "scoped_reverseGet reverseGet val =
     (case reverseGet of None \<Rightarrow> Inl TypeError | Some f \<Rightarrow> Inr (call_of f [val]))"

text \<open>
  The members of the object that \<open>forTypes\<close> holds for a name: \<open>iso\<close>, \<open>lensFromProp\<close>
  and \<open>fold\<close>, then one \<open>variationLenses\<close> object \<open>{iso, lensFromProp}\<close> per variation,
  assigned under the variation's key. Each is represented by the \<open>reverseGet\<close> of its
  isomorphism.
\<close>

datatype slice_member =
    Slice_iso "of_closure option"
  | Slice_lensFromProp "of_closure option"
  | Slice_fold
  | VariationLenses "of_closure option"

definition ofsTypes_at :: "string list \<Rightarrow> string list \<Rightarrow> string \<Rightarrow> string \<Rightarrow> of_closure option" where
  "ofsTypes_at names variations name variation =
     (case ofsTypes names name of
        None \<Rightarrow> None
      | Some f \<Rightarrow> of_props names variations f variation)"

definition forTypes_slice :: "string list \<Rightarrow> string list \<Rightarrow> string \<Rightarrow> (string \<rightharpoonup> slice_member)" where
  "forTypes_slice names variations name =
     fold (\<lambda>variation slice.
             slice(variation \<mapsto> VariationLenses (ofsTypes_at names variations name variation)))
       variations
       [''iso'' \<mapsto> Slice_iso (ofsTypes_at names variations name ''default''),
        ''lensFromProp'' \<mapsto> Slice_lensFromProp (ofsTypes_at names variations name ''default''),
        ''fold'' \<mapsto> Slice_fold]"

definition forTypes :: "string list \<Rightarrow> string list \<Rightarrow> (string \<rightharpoonup> (string \<rightharpoonup> slice_member))" where
  "forTypes names variations =
     fold (\<lambda>name localForTypes. localForTypes(name \<mapsto> forTypes_slice names variations name))
       names Map.empty"

section \<open>Schemas, bundles and the schema algebra\<close>

text \<open>
  The schema \<open>types\<close> is an object whose properties are objects, and the functions of
  the schema algebra build new objects from old ones. To tell a new object from an old
  one, objects live in a heap here: a list of cells, the address of a cell being its
  index, and allocation appending a cell. A cell is a variation table (its properties in
  the order of \<open>Object.keys\<close>, each with the placeholder stored for the payload type), a
  \<open>types\<close> object (its properties in the order of \<open>Object.keys\<close>, each a reference to
  the variation table of a name), or a generated bundle: the reference it holds in its
  member \<open>types\<close> and the arrays \<open>names\<close> and \<open>variations\<close> that all its functions
  (the constructors, guards and optics above) are closed over. Names and variations are
  taken to differ from the bundle's own members \<open>types\<close>, \<open>of\<close>, \<open>is\<close>, \<open>fold\<close>,
  \<open>iso\<close> and \<open>lensFromProp\<close>, and not to be integer-like keys, which \<open>Object.keys\<close>
  would list first. The parameter \<open>union\<close> of the source is called \<open>unionAPI\<close>.

  The only assignments to properties in the source (\<open>defaultOf[variation] = ...\<close>,
  \<open>ofAll[name] = ...\<close>, \<open>defaultFor[name][variation] = ...\<close> and their like in
  \<open>ofVariations\<close>) write to functions and objects that the same call has created; they
  are part of the bundle cell. Every other object is built by an object literal, which
  allocates.
\<close>

type_synonym addr = nat

datatype cell =
    Table "(string \<times> jsval) list"
  | Types "(string \<times> addr) list"
  | Bundle addr "string list" "string list"

type_synonym heap = "cell list"

definition alloc :: "heap \<Rightarrow> cell \<Rightarrow> heap \<times> addr" where
  "alloc h c = (h @ [c], length h)"

definition deref :: "heap \<Rightarrow> addr \<Rightarrow> cell option" where
  "deref h a = (if a < length h then Some (h ! a) else None)"

text \<open>
  Writing a property into a copy, as \<open>{...local, [key]: x}\<close> does: a key that is present
  keeps its place and takes the new value, a new key comes last.
\<close>

fun set_own :: "string \<Rightarrow> 'a \<Rightarrow> (string \<times> 'a) list \<Rightarrow> (string \<times> 'a) list" where
  "set_own k v [] = [(k, v)]"
| "set_own k v ((k', v') # ps) =
     (if k = k' then (k, v) # ps else (k', v') # set_own k v ps)"

text \<open>
  \<open>ofVariations(types)\<close>. \<open>names\<close> is \<open>Object.keys(types)\<close> and \<open>variations\<close> is
  \<open>Object.keys(types[names[0]])\<close>; with no name at all, \<open>types[names[0]]\<close> is
  \<open>undefined\<close> and \<open>Object.keys\<close> throws. The generated functions are then stored as
  properties of function objects (\<open>defaultOf[variation] = ...\<close>, \<open>ofAll[name] = ...\<close>,
  and so on); in the strict mode of a module such an assignment throws when the key is
  one of the read-only properties of a function. No other table than the first is read.
\<close>

definition readonly_function_keys :: "string list" where
  "readonly_function_keys = [''name'', ''length'', ''caller'', ''arguments'']"

definition ofVariations :: "heap \<Rightarrow> addr \<Rightarrow> error + heap \<times> addr" where
  "ofVariations h types =
     (case deref h types of
        Some (Types props) \<Rightarrow>
          (let names = map fst props in
           case props of
             [] \<Rightarrow> Inl TypeError
           | (name0, table0) # _ \<Rightarrow>
               (case deref h table0 of
                  Some (Table tbl) \<Rightarrow>
                    (let variations = map fst tbl in
                     if set (names @ variations) \<inter> set readonly_function_keys \<noteq> {}
                     then Inl TypeError
                     else Inr (alloc h (Bundle types names variations)))
                | _ \<Rightarrow> Inl Untyped))
      | _ \<Rightarrow> Inl Untyped)"

text \<open>
  The \<open>reduce\<close> of \<open>omit\<close> and of \<open>pick\<close> over \<open>Object.keys(union.types)\<close>: a key that
  the test \<open>skip\<close> rejects leaves \<open>localTypes\<close> as it is, any other key allocates the
  object \<open>{...localTypes, [key]: union.types[key]}\<close>.
\<close>

fun reduce_types ::
  "(string \<Rightarrow> bool) \<Rightarrow> (string \<times> addr) list \<Rightarrow> string list \<Rightarrow> heap \<Rightarrow> addr \<Rightarrow> error + heap \<times> addr"
where
  "reduce_types skip props [] h localTypes = Inr (h, localTypes)"
| "reduce_types skip props (key # keys) h localTypes =
     (if skip key then reduce_types skip props keys h localTypes
      else
        (case (deref h localTypes, map_of props key) of
           (Some (Types localProps), Some table) \<Rightarrow>
             (case alloc h (Types (set_own key table localProps)) of
                (h', localTypes') \<Rightarrow> reduce_types skip props keys h' localTypes')
         | _ \<Rightarrow> Inl Untyped))"

definition filtered_union ::
  "(string \<Rightarrow> bool) \<Rightarrow> heap \<Rightarrow> addr \<Rightarrow> error + heap \<times> addr" where
  "filtered_union skip h unionAPI =
     (case deref h unionAPI of
        Some (Bundle types _ _) \<Rightarrow>
          (case deref h types of
             Some (Types props) \<Rightarrow>
               (case alloc h (Types []) of
                  (h0, initial) \<Rightarrow>
                    ebind (reduce_types skip props (map fst props) h0 initial)
                      (\<lambda>(h1, filteredTypes). ofVariations h1 filteredTypes))
           | _ \<Rightarrow> Inl Untyped)
      | _ \<Rightarrow> Inl Untyped)"

text \<open>\<open>omit\<close> skips a key when \<open>omittedKeys.indexOf(key) > -1\<close>.\<close>

definition omit :: "heap \<Rightarrow> addr \<Rightarrow> string list \<Rightarrow> error + heap \<times> addr" where
  "omit h unionAPI omittedKeys = filtered_union (\<lambda>key. key \<in> set omittedKeys) h unionAPI"

text \<open>\<open>pick\<close> skips a key when \<open>onlyKeys.indexOf(key) === -1\<close>.\<close>

definition pick :: "heap \<Rightarrow> addr \<Rightarrow> string list \<Rightarrow> error + heap \<times> addr" where
  "pick h unionAPI onlyKeys = filtered_union (\<lambda>key. key \<notin> set onlyKeys) h unionAPI"

text \<open>\<open>merge\<close> allocates \<open>{...union1.types, ...union2.types}\<close>.\<close>

definition merge :: "heap \<Rightarrow> addr \<Rightarrow> addr \<Rightarrow> error + heap \<times> addr" where
  "merge h union1 union2 =
     (case (deref h union1, deref h union2) of
        (Some (Bundle types1 _ _), Some (Bundle types2 _ _)) \<Rightarrow>
          (case (deref h types1, deref h types2) of
             (Some (Types props1), Some (Types props2)) \<Rightarrow>
               (case alloc h (Types (fold (\<lambda>(key, table). set_own key table) props2 props1)) of
                  (h', types) \<Rightarrow> ofVariations h' types)
           | _ \<Rightarrow> Inl Untyped)
      | _ \<Rightarrow> Inl Untyped)"

text \<open>
  \<open>omitVariations\<close>. The inner \<open>reduce\<close> over \<open>variations\<close> builds the filtered table
  of one name, reading \<open>localType[variation]\<close> (\<open>undefined\<close> when the table of that name
  lacks the key); the outer \<open>reduce\<close> over \<open>names\<close> stores it under the name.
\<close>

fun reduce_variations ::
  "string list \<Rightarrow> (string \<times> jsval) list \<Rightarrow> string list \<Rightarrow> heap \<Rightarrow> addr \<Rightarrow> error + heap \<times> addr"
where
  "reduce_variations omittedVariations localType [] h localVariations =
     Inr (h, localVariations)"
| "reduce_variations omittedVariations localType (variation # variations) h localVariations =
     (if variation \<in> set omittedVariations
      then reduce_variations omittedVariations localType variations h localVariations
      else
        (case deref h localVariations of
           Some (Table localProps) \<Rightarrow>
             (case alloc h (Table (set_own variation
                      (case map_of localType variation of None \<Rightarrow> JUndefined | Some x \<Rightarrow> x)
                      localProps)) of
                (h', localVariations') \<Rightarrow>
                  reduce_variations omittedVariations localType variations h' localVariations')
         | _ \<Rightarrow> Inl Untyped))"

fun reduce_names ::
  "string list \<Rightarrow> (string \<times> addr) list \<Rightarrow> string list \<Rightarrow> string list \<Rightarrow> heap \<Rightarrow> addr
     \<Rightarrow> error + heap \<times> addr"
where
  "reduce_names omittedVariations props variations [] h localTypes = Inr (h, localTypes)"
| "reduce_names omittedVariations props variations (name # names) h localTypes =
     (case map_of props name of
        Some table \<Rightarrow>
          (case deref h table of
             Some (Table localType) \<Rightarrow>
               (case alloc h (Table []) of
                  (h0, initial) \<Rightarrow>
                    (case reduce_variations omittedVariations localType variations h0 initial of
                       Inl e \<Rightarrow> Inl e
                     | Inr (h1, filteredType) \<Rightarrow>
                         (case deref h1 localTypes of
                            Some (Types localProps) \<Rightarrow>
                              (case alloc h1 (Types (set_own name filteredType localProps)) of
                                 (h2, localTypes') \<Rightarrow>
                                   reduce_names omittedVariations props variations names
                                     h2 localTypes')
                          | _ \<Rightarrow> Inl Untyped)))
           | _ \<Rightarrow> Inl Untyped)
      | None \<Rightarrow> Inl Untyped)"

definition omitVariations :: "heap \<Rightarrow> addr \<Rightarrow> string list \<Rightarrow> error + heap \<times> addr" where
  "omitVariations h unionAPI omittedVariations =
     (case deref h unionAPI of
        Some (Bundle types _ _) \<Rightarrow>
          (case deref h types of
             Some (Types props) \<Rightarrow>
               (case props of
                  [] \<Rightarrow> Inl TypeError
                | (name0, table0) # _ \<Rightarrow>
                    (case deref h table0 of
                       Some (Table tbl) \<Rightarrow>
                         (case alloc h (Types []) of
                            (h0, initial) \<Rightarrow>
                              ebind (reduce_names omittedVariations props (map fst tbl)
                                       (map fst props) h0 initial)
                                (\<lambda>(h1, filteredTypes). ofVariations h1 filteredTypes))
                     | _ \<Rightarrow> Inl Untyped))
           | _ \<Rightarrow> Inl Untyped)
      | _ \<Rightarrow> Inl Untyped)"

text \<open>
  A bundle is new with respect to a heap when its own cell and the \<open>types\<close> object it
  refers to were both allocated after that heap.
\<close>

definition fresh_bundle :: "heap \<Rightarrow> heap \<Rightarrow> addr \<Rightarrow> bool" where
  "fresh_bundle h h' b =
     (length h \<le> b \<and>
      (case deref h' b of
         Some (Bundle types names variations) \<Rightarrow>
           length h \<le> types \<and>
           (case deref h' types of Some (Types props) \<Rightarrow> names = map fst props | _ \<Rightarrow> False)
       | _ \<Rightarrow> False))"

text \<open>
  A heap for worked examples: the bundle at address 3 has the names \<open>One\<close>, \<open>Two\<close> and
  the variations \<open>var1\<close>, \<open>var2\<close>; the bundle at address 6 has the name \<open>Three\<close> and
  the variation \<open>var1\<close>.
\<close>

definition example_heap :: heap where
  "example_heap =
     [Table [(''var1'', JUndefined), (''var2'', JUndefined)],
      Table [(''var1'', JUndefined), (''var2'', JUndefined)],
      Types [(''One'', 0), (''Two'', 1)],
      Bundle 2 [''One'', ''Two''] [''var1'', ''var2''],
      Table [(''var1'', JUndefined)],
      Types [(''Three'', 4)],
      Bundle 5 [''Three''] [''var1'']]"

section \<open>Lookups in the generated tables\<close>

lemma fold_assign:
  "fold (\<lambda>k m. m(k := g k)) ks m0 x = (if x \<in> set ks then g x else m0 x)"
  by (induction ks arbitrary: m0) auto

lemma fold_store:
  "fold (\<lambda>k m. m(k \<mapsto> f k)) ks m0 x = (if x \<in> set ks then Some (f x) else m0 x)"
  using fold_assign [of "\<lambda>k. Some (f k)" ks m0 x] by simp

lemma ofsTypes_lookup:
  "ofsTypes names k = (if k \<in> set names then Some (OfsTypes k) else None)"
  by (simp add: ofsTypes_def fold_store)

lemma ofsVariations_lookup:
  "ofsVariations variations k = (if k \<in> set variations then Some (OfsVariations k) else None)"
  by (simp add: ofsVariations_def fold_store)

lemma ofAll_props_lookup:
  "ofAll_props names variations k =
     (if k \<in> set variations then Some (OfsVariations k)
      else if k \<in> set names then Some (OfsTypes k) else None)"
  by (simp add: ofAll_props_def fold_assign ofsTypes_lookup ofsVariations_lookup)

lemma isTypes_lookup:
  "isTypes names k = (if k \<in> set names then Some (IsTypes k) else None)"
  by (simp add: isTypes_def fold_store)

lemma isVariations_lookup:
  "isVariations variations k = (if k \<in> set variations then Some (IsVariations k) else None)"
  by (simp add: isVariations_def fold_store)

lemma isAll_props_lookup:
  "isAll_props names variations k =
     (if k \<in> set variations then Some (IsVariations k)
      else if k \<in> set names then Some (IsTypes k) else None)"
  by (simp add: isAll_props_def fold_assign isTypes_lookup isVariations_lookup)

lemma opaque_inject:
  "opaque n v p = opaque n' v' p' \<longleftrightarrow> n = n' \<and> v = v' \<and> p = p'"
proof
  assume eq: "opaque n v p = opaque n' v' p'"
  then have m: "[''__OPAQUE__'' \<mapsto> JString ''__OPAQUE__'', ''__OPAQUE_KEY__'' \<mapsto> n,
                 ''__OPAQUE_VARIATION__'' \<mapsto> v, ''value'' \<mapsto> p] =
                [''__OPAQUE__'' \<mapsto> JString ''__OPAQUE__'', ''__OPAQUE_KEY__'' \<mapsto> n',
                 ''__OPAQUE_VARIATION__'' \<mapsto> v', ''value'' \<mapsto> p']"
    by (simp add: opaque_def)
  from fun_cong [OF m, of "''__OPAQUE_KEY__''"] have "n = n'" by simp
  moreover from fun_cong [OF m, of "''__OPAQUE_VARIATION__''"] have "v = v'" by simp
  moreover from fun_cong [OF m, of "''value''"] have "p = p'" by simp
  ultimately show "n = n' \<and> v = v' \<and> p = p'" by simp
qed simp

lemma has_marker_opaque: "has_marker (opaque n v p) = Inr True"
  by (simp add: has_marker_def opaque_def)

lemma typeof_opaque: "typeof (opaque n v p) = ''object''"
  by (simp add: opaque_def)

lemma opaque_key: "get_prop (opaque n v p) ''__OPAQUE_KEY__'' = Inr n"
  by (simp add: opaque_def)

lemma opaque_variation: "get_prop (opaque n v p) ''__OPAQUE_VARIATION__'' = Inr v"
  by (simp add: opaque_def)

lemma opaque_value: "get_prop (opaque n v p) ''value'' = Inr p"
  by (simp add: opaque_def)

lemma indexOf_from_found: "x \<in> set (map JString ys) \<Longrightarrow> 0 \<le> i \<Longrightarrow> 0 \<le> indexOf_from ys x i"
  by (induction ys arbitrary: i) auto

lemma indexOf_from_missing: "x \<notin> set (map JString ys) \<Longrightarrow> indexOf_from ys x i = - 1"
  by (induction ys arbitrary: i) auto

lemma indexOf_minus_one: "indexOf ys x = - 1 \<longleftrightarrow> \<not> js_includes ys x"
  using indexOf_from_found [of x ys 0] indexOf_from_missing [of x ys 0]
  by (auto simp: indexOf_def js_includes_def)

lemma js_includes_JString: "js_includes ys (JString s) \<longleftrightarrow> s \<in> set ys"
  by (auto simp: js_includes_def)

lemma isAll_opaque:
  "isAll names variations (opaque n v p) =
     Inr (js_includes names n \<and> js_includes variations v)"
  by (simp add: isAll_def typeof_opaque has_marker_opaque opaque_key opaque_variation
      indexOf_minus_one Let_def)

lemma forTypes_lookup:
  "forTypes names variations n =
     (if n \<in> set names then Some (forTypes_slice names variations n) else None)"
  by (simp add: forTypes_def fold_store)

lemma ofsTypes_at_lookup:
  "n \<in> set names \<Longrightarrow> v \<in> set variations \<Longrightarrow>
     ofsTypes_at names variations n v = Some (OfsTypes_variation n v)"
  by (simp add: ofsTypes_at_def ofsTypes_lookup fold_store)

lemma forTypes_slice_lookup:
  "v \<in> set variations \<Longrightarrow>
     forTypes_slice names variations n v
       = Some (VariationLenses (ofsTypes_at names variations n v))"
  by (simp add: forTypes_slice_def fold_store)

section \<open>The tagged value of an entity\<close>

lemma array_props_two:
  "array_props [a, b] = [''0'' \<mapsto> a, ''1'' \<mapsto> b]"
  by (auto simp: array_props_def fun_eq_iff upt_rec)

lemma iso_get_opaque:
  "iso_get (opaque n v p) =
     Inr (JObject ([''_tag'' \<mapsto> n, ''_variation'' \<mapsto> v] ++ own_props p))"
  by (simp add: iso_get_def opaque_key opaque_variation opaque_value)

lemma strip_tags:
  assumes "m ''_tag'' = None" and "m ''_variation'' = None"
  shows "([''_tag'' \<mapsto> n, ''_variation'' \<mapsto> v] ++ m)(''_tag'' := None, ''_variation'' := None) = m"
  using assms by (auto simp: map_add_def fun_eq_iff split: option.splits)

lemma tagged_tag:
  assumes "m ''_tag'' = None" and "m ''_variation'' = None"
  shows "get_prop (JObject ([''_tag'' \<mapsto> n, ''_variation'' \<mapsto> v] ++ m)) ''_tag'' = Inr n"
    and "get_prop (JObject ([''_tag'' \<mapsto> n, ''_variation'' \<mapsto> v] ++ m)) ''_variation'' = Inr v"
  using assms by (simp_all add: map_add_def)

lemma iso_reverseGet_tagged:
  assumes "m ''_tag'' = None" and "m ''_variation'' = None"
  shows "iso_reverseGet (JObject ([''_tag'' \<mapsto> n, ''_variation'' \<mapsto> v] ++ m))
           = Inr (opaque n v (JObject m))"
  by (simp only: iso_reverseGet_def tagged_tag [OF assms] ebind.simps own_props.simps
      strip_tags [OF assms])

lemma lens_get_written:
  "lensFromProp_get k (ofAll n v (JObject (m(k \<mapsto> x)))) = Inr x"
  by (simp add: lensFromProp_get_def ofAll_def iso_get_opaque prop_get_def map_add_def)

lemma lens_set_result:
  assumes k: "m k \<noteq> None" and t: "m ''_tag'' = None" and var: "m ''_variation'' = None"
  shows "lensFromProp_set k y (ofAll n v (JObject m)) = Inr (ofAll n v (JObject (m(k \<mapsto> y))))"
proof -
  from k t var have k1: "k \<noteq> ''_tag''" and k2: "k \<noteq> ''_variation''" by auto
  let ?m' = "m(k \<mapsto> y)"
  have t': "?m' ''_tag'' = None" and var': "?m' ''_variation'' = None"
    using k1 k2 t var by simp_all
  from iso_reverseGet_tagged [of "m(k \<mapsto> y)" n v, OF t' var'] show ?thesis
    by (simp add: lensFromProp_set_def ofAll_def iso_get_opaque prop_set_def)
qed

section \<open>The global guard and arbitrary input\<close>

lemma isAll_not_null:
  "thing \<noteq> JNull \<Longrightarrow> \<exists>b. isAll names variations thing = Inr b"
  by (cases thing) (auto simp: isAll_def has_marker_def Let_def)

text \<open>
  C1. The claim is that \<open>is(thing)\<close> returns a boolean and never throws, for every value
  including \<open>null\<close>. The code tests \<open>typeof thing !== 'object'\<close> first, which \<open>null\<close>
  passes, and then evaluates \<open>'__OPAQUE__' in thing\<close>, which throws a \<open>TypeError\<close> on
  \<open>null\<close>: whatever the schema, \<open>is(null)\<close> throws.
\<close>

theorem isAll_null_throws: "isAll names variations JNull = Inl TypeError"
  by (simp add: isAll_def has_marker_def)

section \<open>Round trip of the global isomorphism\<close>

text \<open>
  C2 (as amended). The claim is the round trip \<open>reverseGet(get(of(n, v, p)))\<close> equal to
  \<open>of(n, v, p)\<close> for every payload \<open>p\<close>. \<open>get\<close> spreads the payload next to \<open>_tag\<close>
  and \<open>_variation\<close>, and \<open>reverseGet\<close> collects what is left into a new plain object, so
  the law holds for the payloads that survive this: for every name, variation and payload
  that is a plain object without own properties \<open>_tag\<close> and \<open>_variation\<close>, the round
  trip returns the entity it started from.
\<close>

theorem iso_round_trip:
  assumes "m ''_tag'' = None" and "m ''_variation'' = None"
  shows "ebind (iso_get (ofAll (JString n) (JString v) (JObject m))) iso_reverseGet
           = Inr (ofAll (JString n) (JString v) (JObject m))"
  using iso_reverseGet_tagged [of m "JString n" "JString v", OF assms]
  by (simp add: ofAll_def iso_get_opaque)

theorem iso_round_trip_witness:
  "ebind (iso_get (ofAll (JString ''One'') (JString ''var1'')
                     (JObject [''value'' \<mapsto> JString ''one''])))
         iso_reverseGet
     = Inr (ofAll (JString ''One'') (JString ''var1'') (JObject [''value'' \<mapsto> JString ''one'']))"
  using iso_round_trip [of "[''value'' \<mapsto> JString ''one'']" "''One''" "''var1''"]
  by simp

text \<open>
  The claim C2 as stated fails on a payload that is not an object (the number \<open>5\<close> comes
  back as the empty object), on an array (\<open>[1, 2]\<close> comes back as the plain object
  \<open>{0: 1, 1: 2}\<close>) and on a payload with a property \<open>_tag\<close> (it replaces the name of
  the entity and is lost from the payload).
\<close>

theorem iso_round_trip_counterexample:
  "ebind (iso_get (ofAll (JString ''One'') (JString ''default'') (JNumber 5))) iso_reverseGet
     = Inr (opaque (JString ''One'') (JString ''default'') (JObject Map.empty))
   \<and> ebind (iso_get (ofAll (JString ''One'') (JString ''default'') (JNumber 5))) iso_reverseGet
     \<noteq> Inr (ofAll (JString ''One'') (JString ''default'') (JNumber 5))
   \<and> ebind (iso_get (ofAll (JString ''One'') (JString ''default'')
                       (JArray [JNumber 1, JNumber 2])))
           iso_reverseGet
     = Inr (opaque (JString ''One'') (JString ''default'')
              (JObject [''0'' \<mapsto> JNumber 1, ''1'' \<mapsto> JNumber 2]))
   \<and> ebind (iso_get (ofAll (JString ''One'') (JString ''default'')
                       (JArray [JNumber 1, JNumber 2])))
           iso_reverseGet
     \<noteq> Inr (ofAll (JString ''One'') (JString ''default'') (JArray [JNumber 1, JNumber 2]))
   \<and> ebind (iso_get (ofAll (JString ''One'') (JString ''default'')
                       (JObject [''_tag'' \<mapsto> JString ''Two''])))
           iso_reverseGet
     = Inr (opaque (JString ''Two'') (JString ''default'') (JObject Map.empty))
   \<and> ebind (iso_get (ofAll (JString ''One'') (JString ''default'')
                       (JObject [''_tag'' \<mapsto> JString ''Two''])))
           iso_reverseGet
     \<noteq> Inr (ofAll (JString ''One'') (JString ''default'') (JObject [''_tag'' \<mapsto> JString ''Two'']))"
  by (simp add: ofAll_def iso_get_opaque iso_reverseGet_def opaque_inject fun_eq_iff
      array_props_two map_add_def)

section \<open>The five access paths of construction\<close>

text \<open>
  C3 (as amended). The claim is that \<open>of(n, v, p)\<close>, \<open>of[n](v, p)\<close>, \<open>of[n][v](p)\<close>,
  \<open>of[v](n, p)\<close> and \<open>of[v][n](p)\<close> return the same entity for all names and variations.
  The properties of \<open>of\<close> are assigned for the names first and for the variations
  afterwards, under the same keys. So: for every name \<open>n\<close> of the schema that is not also
  one of its variation keys, every variation \<open>v\<close> and every payload \<open>p\<close>, the four scoped
  paths return the entity that \<open>of(n, v, p)\<close> returns.
\<close>

theorem of_access_paths:
  assumes "n \<in> set names" and "v \<in> set variations" and "n \<notin> set variations"
  shows "of_at names variations n [JString v, p] = Inr (ofAll (JString n) (JString v) p)
       \<and> of_at2 names variations n v [p] = Inr (ofAll (JString n) (JString v) p)
       \<and> of_at names variations v [JString n, p] = Inr (ofAll (JString n) (JString v) p)
       \<and> of_at2 names variations v n [p] = Inr (ofAll (JString n) (JString v) p)"
  using assms
  by (simp add: of_at_def of_at2_def ofAll_props_lookup fold_store ofAll_def arg_def)

theorem of_access_paths_witness:
  "of_at [''One'', ''Two''] [''var1'', ''var2''] ''One'' [JString ''var1'', JNumber 7]
      = Inr (ofAll (JString ''One'') (JString ''var1'') (JNumber 7))
   \<and> of_at2 [''One'', ''Two''] [''var1'', ''var2''] ''One'' ''var1'' [JNumber 7]
      = Inr (ofAll (JString ''One'') (JString ''var1'') (JNumber 7))
   \<and> of_at [''One'', ''Two''] [''var1'', ''var2''] ''var1'' [JString ''One'', JNumber 7]
      = Inr (ofAll (JString ''One'') (JString ''var1'') (JNumber 7))
   \<and> of_at2 [''One'', ''Two''] [''var1'', ''var2''] ''var1'' ''One'' [JNumber 7]
      = Inr (ofAll (JString ''One'') (JString ''var1'') (JNumber 7))"
  using of_access_paths
    [of "''One''" "[''One'', ''Two'']" "''var1''" "[''var1'', ''var2'']" "JNumber 7"]
  by simp

text \<open>
  The claim C3 as stated fails for the schema with the names \<open>A\<close>, \<open>B\<close> and the
  variations \<open>A\<close>, \<open>B\<close>: \<open>of['A']\<close> is the constructor of the variation \<open>A\<close>, so
  \<open>of['A']('B', 7)\<close> is the entity of name \<open>B\<close> and variation \<open>A\<close>, while \<open>of('A', 'B', 7)\<close>
  is the entity of name \<open>A\<close> and variation \<open>B\<close>.
\<close>

theorem of_access_paths_counterexample:
  "of_at [''A'', ''B''] [''A'', ''B''] ''A'' [JString ''B'', JNumber 7]
     = Inr (opaque (JString ''B'') (JString ''A'') (JNumber 7))
   \<and> ofAll (JString ''A'') (JString ''B'') (JNumber 7)
     = opaque (JString ''A'') (JString ''B'') (JNumber 7)
   \<and> of_at [''A'', ''B''] [''A'', ''B''] ''A'' [JString ''B'', JNumber 7]
     \<noteq> Inr (ofAll (JString ''A'') (JString ''B'') (JNumber 7))"
  by (simp add: of_at_def ofAll_props_lookup ofAll_def arg_def opaque_inject)

section \<open>Guards on constructed entities\<close>

text \<open>
  C4 (as amended). The claim is that on \<open>e = of(n, v, p)\<close> the guards \<open>is\<close>, \<open>is[n]\<close>,
  \<open>is[v]\<close> and \<open>is[n][v]\<close> return true and \<open>is[n2]\<close> returns false for every other name.
  The properties of \<open>is\<close> are assigned for the names first and for the variations
  afterwards, under the same keys. So: for every name \<open>n\<close> of the schema that is not also
  one of its variation keys, every variation \<open>v\<close> and payload \<open>p\<close>, the four guards return
  true on \<open>e\<close>, and \<open>is[n2]\<close> returns false on \<open>e\<close> for every other name \<open>n2\<close> of the schema
  that is not also a variation key.
\<close>

theorem guards_of_constructed:
  assumes "n \<in> set names" and "v \<in> set variations" and "n \<notin> set variations"
  shows "isAll names variations (ofAll (JString n) (JString v) p) = Inr True
       \<and> is_at names variations n (ofAll (JString n) (JString v) p) = Inr True
       \<and> is_at names variations v (ofAll (JString n) (JString v) p) = Inr True
       \<and> is_at2 names variations n v (ofAll (JString n) (JString v) p) = Inr True
       \<and> (\<forall>n2 \<in> set names. n2 \<noteq> n \<and> n2 \<notin> set variations \<longrightarrow>
            is_at names variations n2 (ofAll (JString n) (JString v) p) = Inr False)"
  using assms
  by (simp add: is_at_def is_at2_def isAll_props_lookup fold_store ofAll_def isAll_opaque
      typeof_opaque has_marker_opaque opaque_key opaque_variation js_includes_JString)

theorem guards_of_constructed_witness:
  "isAll [''One'', ''Two''] [''var1'', ''var2'']
      (ofAll (JString ''One'') (JString ''var1'') (JNumber 7)) = Inr True
   \<and> is_at [''One'', ''Two''] [''var1'', ''var2''] ''One''
      (ofAll (JString ''One'') (JString ''var1'') (JNumber 7)) = Inr True
   \<and> is_at [''One'', ''Two''] [''var1'', ''var2''] ''var1''
      (ofAll (JString ''One'') (JString ''var1'') (JNumber 7)) = Inr True
   \<and> is_at2 [''One'', ''Two''] [''var1'', ''var2''] ''One'' ''var1''
      (ofAll (JString ''One'') (JString ''var1'') (JNumber 7)) = Inr True
   \<and> is_at [''One'', ''Two''] [''var1'', ''var2''] ''Two''
      (ofAll (JString ''One'') (JString ''var1'') (JNumber 7)) = Inr False"
  using guards_of_constructed
    [of "''One''" "[''One'', ''Two'']" "''var1''" "[''var1'', ''var2'']" "JNumber 7"]
  by simp

text \<open>
  The claim C4 as stated fails for the schema with the names \<open>A\<close>, \<open>B\<close> and the
  variations \<open>A\<close>, \<open>B\<close>: \<open>is['A']\<close> and \<open>is['B']\<close> are the guards of the variations, so on
  \<open>e = of('A', 'B', 7)\<close> the guard \<open>is['A']\<close> returns false and the guard \<open>is['B']\<close> of the
  other name returns true.
\<close>

theorem guards_of_constructed_counterexample:
  "is_at [''A'', ''B''] [''A'', ''B''] ''A''
      (ofAll (JString ''A'') (JString ''B'') (JNumber 7)) = Inr False
   \<and> is_at [''A'', ''B''] [''A'', ''B''] ''B''
      (ofAll (JString ''A'') (JString ''B'') (JNumber 7)) = Inr True"
  by (simp add: is_at_def isAll_props_lookup ofAll_def
      typeof_opaque has_marker_opaque opaque_key opaque_variation js_includes_JString)

section \<open>Scoped isomorphisms\<close>

text \<open>
  C5 (as amended). The claim is that the isomorphism scoped to a name \<open>n\<close> and a
  variation \<open>v\<close> round-trips on the bare payload, and on every entity built as
  \<open>of[n][v](p)\<close>. \<open>forTypes\<close> holds that isomorphism under \<open>n\<close> and then \<open>v\<close>, with
  \<open>reverseGet = ofsTypes[n][v]\<close>, while \<open>of[n]\<close> is a property of \<open>of\<close>, assigned for
  the names first and for the variations afterwards. So: for every name \<open>n\<close> of the schema
  that is not also one of its variation keys, every variation \<open>v\<close> and every payload \<open>p\<close>,
  \<open>get(reverseGet(p))\<close> is \<open>p\<close>; \<open>of[n][v](p)\<close> returns an entity \<open>e\<close>; \<open>get(e)\<close> is the
  bare payload \<open>p\<close>, without tags; and \<open>reverseGet(get(e))\<close> is \<open>e\<close>.
\<close>

theorem scoped_iso_round_trip:
  assumes "n \<in> set names" and "v \<in> set variations" and "n \<notin> set variations"
  shows "\<exists>slice reverseGet e.
           forTypes names variations n = Some slice
         \<and> slice v = Some (VariationLenses reverseGet)
         \<and> ebind (scoped_reverseGet reverseGet p) scoped_get = Inr p
         \<and> of_at2 names variations n v [p] = Inr e
         \<and> scoped_get e = Inr p
         \<and> ebind (scoped_get e) (scoped_reverseGet reverseGet) = Inr e"
  using assms
  by (simp add: forTypes_lookup forTypes_slice_lookup ofsTypes_at_lookup of_at2_def
      ofAll_props_lookup fold_store scoped_reverseGet_def scoped_get_def arg_def opaque_value)

theorem scoped_iso_round_trip_witness:
  "\<exists>slice reverseGet e.
      forTypes [''One'', ''Two''] [''var1'', ''var2''] ''One'' = Some slice
    \<and> slice ''var1'' = Some (VariationLenses reverseGet)
    \<and> ebind (scoped_reverseGet reverseGet (JNumber 7)) scoped_get = Inr (JNumber 7)
    \<and> of_at2 [''One'', ''Two''] [''var1'', ''var2''] ''One'' ''var1'' [JNumber 7] = Inr e
    \<and> scoped_get e = Inr (JNumber 7)
    \<and> ebind (scoped_get e) (scoped_reverseGet reverseGet) = Inr e"
  using scoped_iso_round_trip
    [of "''One''" "[''One'', ''Two'']" "''var1''" "[''var1'', ''var2'']" "JNumber 7"]
  by simp

text \<open>
  The claim C5 as stated fails for the schema with the names \<open>A\<close>, \<open>B\<close> and the
  variations \<open>A\<close>, \<open>B\<close>: \<open>of['A']['B'](7)\<close> is the entity of name \<open>B\<close> and variation
  \<open>A\<close>, and the isomorphism scoped to the name \<open>A\<close> and the variation \<open>B\<close> takes it to
  the entity of name \<open>A\<close> and variation \<open>B\<close>.
\<close>

theorem scoped_iso_round_trip_counterexample:
  "forTypes [''A'', ''B''] [''A'', ''B''] ''A''
     = Some (forTypes_slice [''A'', ''B''] [''A'', ''B''] ''A'')
   \<and> forTypes_slice [''A'', ''B''] [''A'', ''B''] ''A'' ''B''
     = Some (VariationLenses (Some (OfsTypes_variation ''A'' ''B'')))
   \<and> of_at2 [''A'', ''B''] [''A'', ''B''] ''A'' ''B'' [JNumber 7]
     = Inr (opaque (JString ''B'') (JString ''A'') (JNumber 7))
   \<and> ebind (scoped_get (opaque (JString ''B'') (JString ''A'') (JNumber 7)))
        (scoped_reverseGet (Some (OfsTypes_variation ''A'' ''B'')))
     = Inr (opaque (JString ''A'') (JString ''B'') (JNumber 7))
   \<and> opaque (JString ''A'') (JString ''B'') (JNumber 7)
     \<noteq> opaque (JString ''B'') (JString ''A'') (JNumber 7)"
  by (simp add: forTypes_lookup forTypes_slice_lookup ofsTypes_at_lookup of_at2_def
      ofAll_props_lookup fold_store scoped_reverseGet_def scoped_get_def arg_def opaque_value
      opaque_inject)

section \<open>The arity of the name-scoped constructor\<close>

text \<open>
  C6 (as amended). The claim is that \<open>of[name]\<close> is overloaded by arity. \<open>of[name]\<close> is
  a property of \<open>of\<close>, assigned for the names first and for the variations afterwards.
  So: for every name of the schema that is not also one of its variation keys,
  \<open>of[name]\<close> called with one argument returns the entity of that name with the
  variation \<open>'default'\<close> and the argument as payload; called with two arguments it takes
  the first as variation and the second as payload.
\<close>

theorem defaultOf_arity:
  assumes "name \<in> set names" and "name \<notin> set variations"
  shows "of_at names variations name [p] = Inr (opaque (JString name) (JString ''default'') p)
       \<and> of_at names variations name [v, p] = Inr (opaque (JString name) v p)"
  using assms by (simp add: of_at_def ofAll_props_lookup arg_def)

theorem defaultOf_arity_witness:
  "of_at [''One'', ''Two''] [''var1'', ''var2''] ''One'' [JNumber 7]
     = Inr (opaque (JString ''One'') (JString ''default'') (JNumber 7))
   \<and> of_at [''One'', ''Two''] [''var1'', ''var2''] ''One'' [JString ''var1'', JNumber 7]
     = Inr (opaque (JString ''One'') (JString ''var1'') (JNumber 7))"
  using defaultOf_arity
    [of "''One''" "[''One'', ''Two'']" "[''var1'', ''var2'']" "JNumber 7" "JString ''var1''"]
  by simp

text \<open>
  The claim C6 as stated fails for the schema of \<open>Union.of({ default: ..., Other: ... })\<close>,
  with the names \<open>default\<close>, \<open>Other\<close> and the variation \<open>default\<close>: \<open>of['default']\<close> is
  the constructor of the variation, which takes its first argument as the name. With one
  argument \<open>7\<close> the entity has the name \<open>7\<close> and the payload \<open>undefined\<close>; with the two
  arguments \<open>'Other'\<close> and \<open>7\<close> it has the name \<open>Other\<close> and the variation \<open>default\<close>.
\<close>

theorem defaultOf_arity_counterexample:
  "of_at [''default'', ''Other''] [''default''] ''default'' [JNumber 7]
     = Inr (opaque (JNumber 7) (JString ''default'') JUndefined)
   \<and> of_at [''default'', ''Other''] [''default''] ''default'' [JNumber 7]
     \<noteq> Inr (opaque (JString ''default'') (JString ''default'') (JNumber 7))
   \<and> of_at [''default'', ''Other''] [''default''] ''default'' [JString ''Other'', JNumber 7]
     = Inr (opaque (JString ''Other'') (JString ''default'') (JNumber 7))
   \<and> of_at [''default'', ''Other''] [''default''] ''default'' [JString ''Other'', JNumber 7]
     \<noteq> Inr (opaque (JString ''default'') (JString ''Other'') (JNumber 7))"
  by (simp add: of_at_def ofAll_props_lookup arg_def opaque_inject)

text \<open>
  C10 (as amended). The claim is that, when \<open>'default'\<close> is not a variation of the
  schema, \<open>of[n]\<close> called with one argument still returns an entity with the variation
  \<open>'default'\<close>, on which the global guard returns false. So: when \<open>'default'\<close> is not a
  variation of the schema, for every name \<open>n\<close> of the schema that is not also one of its
  variation keys, \<open>of[n](p)\<close> returns the entity of name \<open>n\<close>, variation \<open>'default'\<close> and
  payload \<open>p\<close>, and \<open>is\<close> returns false on it.
\<close>

theorem default_applied_unconditionally:
  assumes "''default'' \<notin> set variations" and "n \<in> set names" and "n \<notin> set variations"
  shows "of_at names variations n [p] = Inr (opaque (JString n) (JString ''default'') p)
       \<and> isAll names variations (opaque (JString n) (JString ''default'') p) = Inr False"
  using assms
  by (simp add: of_at_def ofAll_props_lookup arg_def isAll_opaque js_includes_JString)

theorem default_applied_unconditionally_witness:
  "of_at [''One'', ''Two''] [''var1'', ''var2''] ''One'' [JNumber 7]
     = Inr (opaque (JString ''One'') (JString ''default'') (JNumber 7))
   \<and> isAll [''One'', ''Two''] [''var1'', ''var2'']
        (opaque (JString ''One'') (JString ''default'') (JNumber 7)) = Inr False"
  using default_applied_unconditionally
    [of "[''var1'', ''var2'']" "''One''" "[''One'', ''Two'']" "JNumber 7"]
  by simp

text \<open>
  The claim C10 as stated fails for the schema with the names \<open>A\<close>, \<open>B\<close> and the
  variations \<open>A\<close>, \<open>B\<close>, where \<open>'default'\<close> is no variation: \<open>of['A']('B')\<close> is the
  entity of name \<open>B\<close> and variation \<open>A\<close>, and \<open>is\<close> returns true on it.
\<close>

theorem default_applied_unconditionally_counterexample:
  "of_at [''A'', ''B''] [''A'', ''B''] ''A'' [JString ''B'']
     = Inr (opaque (JString ''B'') (JString ''A'') JUndefined)
   \<and> get_prop (opaque (JString ''B'') (JString ''A'') JUndefined) ''__OPAQUE_VARIATION__''
     = Inr (JString ''A'')
   \<and> JString ''A'' \<noteq> JString ''default''
   \<and> isAll [''A'', ''B''] [''A'', ''B''] (opaque (JString ''B'') (JString ''A'') JUndefined)
     = Inr True"
  by (simp add: of_at_def ofAll_props_lookup arg_def opaque_variation isAll_opaque
      js_includes_JString)

section \<open>The lens of a property\<close>

text \<open>
  C8 (as amended). The claim is the get/set law of \<open>lensFromProp(k)\<close> for a property \<open>k\<close>
  present on the payload object. The lens works on the tagged value, where the payload's
  properties stand next to \<open>_tag\<close> and \<open>_variation\<close>, and writes back through
  \<open>reverseGet\<close>, which collects the properties into a new plain object. So: for a payload
  that is a plain object without own properties \<open>_tag\<close> and \<open>_variation\<close> and a property
  \<open>k\<close> present on it, \<open>get\<close> returns \<open>x\<close> on the entity whose payload has \<open>x\<close> under
  \<open>k\<close>, and \<open>set(y)\<close> returns the entity of the same name and variation whose payload
  has \<open>y\<close> under \<open>k\<close> and is unchanged elsewhere, on which \<open>get\<close> returns \<open>y\<close>.
\<close>

theorem lens_get_set:
  assumes "m k \<noteq> None" and "m ''_tag'' = None" and "m ''_variation'' = None"
  shows "lensFromProp_get k (ofAll (JString n) (JString v) (JObject (m(k \<mapsto> x)))) = Inr x
       \<and> lensFromProp_set k y (ofAll (JString n) (JString v) (JObject m))
           = Inr (ofAll (JString n) (JString v) (JObject (m(k \<mapsto> y))))
       \<and> lensFromProp_get k (ofAll (JString n) (JString v) (JObject (m(k \<mapsto> y)))) = Inr y"
  using lens_set_result [OF assms] by (simp add: lens_get_written)

theorem lens_get_set_witness:
  "lensFromProp_get ''value'' (ofAll (JString ''One'') (JString ''var1'')
       (JObject ([''value'' \<mapsto> JString ''one''](''value'' \<mapsto> JString ''uno''))))
     = Inr (JString ''uno'')
   \<and> lensFromProp_set ''value'' (JString ''two'')
        (ofAll (JString ''One'') (JString ''var1'') (JObject [''value'' \<mapsto> JString ''one'']))
       = Inr (ofAll (JString ''One'') (JString ''var1'')
               (JObject ([''value'' \<mapsto> JString ''one''](''value'' \<mapsto> JString ''two''))))
   \<and> lensFromProp_get ''value'' (ofAll (JString ''One'') (JString ''var1'')
       (JObject ([''value'' \<mapsto> JString ''one''](''value'' \<mapsto> JString ''two''))))
     = Inr (JString ''two'')"
  using lens_get_set [of "[''value'' \<mapsto> JString ''one'']" "''value''" "''One''" "''var1''"
      "JString ''uno''" "JString ''two''"]
  by simp

text \<open>
  The claim C8 as stated fails on the payload \<open>{ a: 1, _tag: 'Two' }\<close>: setting \<open>a\<close> to
  \<open>2\<close> on the entity of name \<open>One\<close> returns an entity of name \<open>Two\<close>, whose payload has
  lost \<open>_tag\<close>. It also fails on the array payload \<open>[1, 2]\<close>: setting \<open>0\<close> to \<open>5\<close>
  returns an entity whose payload is the plain object \<open>{0: 5, 1: 2}\<close>, without the
  property \<open>length\<close> of the array.
\<close>

theorem lens_get_set_counterexample:
  "lensFromProp_set ''a'' (JNumber 2)
     (ofAll (JString ''One'') (JString ''default'')
        (JObject [''a'' \<mapsto> JNumber 1, ''_tag'' \<mapsto> JString ''Two'']))
     = Inr (opaque (JString ''Two'') (JString ''default'') (JObject [''a'' \<mapsto> JNumber 2]))
   \<and> get_prop (opaque (JString ''Two'') (JString ''default'') (JObject [''a'' \<mapsto> JNumber 2]))
        ''__OPAQUE_KEY__''
     \<noteq> get_prop (ofAll (JString ''One'') (JString ''default'')
                   (JObject [''a'' \<mapsto> JNumber 1, ''_tag'' \<mapsto> JString ''Two'']))
          ''__OPAQUE_KEY__''
   \<and> lensFromProp_set ''0'' (JNumber 5)
     (ofAll (JString ''One'') (JString ''default'') (JArray [JNumber 1, JNumber 2]))
     = Inr (opaque (JString ''One'') (JString ''default'')
              (JObject [''0'' \<mapsto> JNumber 5, ''1'' \<mapsto> JNumber 2]))
   \<and> get_prop (JObject [''0'' \<mapsto> JNumber 5, ''1'' \<mapsto> JNumber 2]) ''length''
     \<noteq> get_prop (JArray [JNumber 1, JNumber 2]) ''length''"
  apply (simp add: lensFromProp_set_def ofAll_def iso_get_opaque prop_set_def iso_reverseGet_def
      opaque_key opaque_inject map_add_def array_props_two)
  apply (auto simp: fun_eq_iff)
  done

section \<open>The schema normalizer\<close>

text \<open>
  C7. When \<open>types\<close> has the first name \<open>name0\<close> with the variation table \<open>tbl\<close>,
  \<open>ofVariations\<close> returns a bundle whose names are the keys of \<open>types\<close> in their order
  and whose variations are the keys of \<open>tbl\<close> in their order (or throws, when one of those
  keys is a read-only property of functions). The result does not depend on what the
  other names refer to: their tables are not read, so a schema whose tables have
  different keys is accepted like any other.
\<close>

theorem variations_from_first_name:
  assumes "deref h types = Some (Types ((name0, table0) # rest))"
    and "deref h table0 = Some (Table tbl)"
  shows "ofVariations h types =
           (if set (name0 # map fst rest @ map fst tbl) \<inter> set readonly_function_keys \<noteq> {}
            then Inl TypeError
            else Inr (h @ [Bundle types (name0 # map fst rest) (map fst tbl)], length h))"
  using assms by (simp add: ofVariations_def alloc_def)

theorem variations_from_first_name_witness:
  "ofVariations
     [Table [(''var1'', JUndefined), (''var2'', JUndefined)],
      Table [(''other'', JUndefined)],
      Types [(''One'', 0), (''Two'', 1)]] 2
   = Inr ([Table [(''var1'', JUndefined), (''var2'', JUndefined)],
           Table [(''other'', JUndefined)],
           Types [(''One'', 0), (''Two'', 1)],
           Bundle 2 [''One'', ''Two''] [''var1'', ''var2'']], 3)"
  using variations_from_first_name
    [of "[Table [(''var1'', JUndefined), (''var2'', JUndefined)],
          Table [(''other'', JUndefined)],
          Types [(''One'', 0), (''Two'', 1)]]" 2 "''One''" 0 "[(''Two'', 1)]"
        "[(''var1'', JUndefined), (''var2'', JUndefined)]"]
  by (simp add: deref_def readonly_function_keys_def)


section \<open>The schema algebra allocates and never writes\<close>

lemma alloc_frame:
  assumes "alloc h c = (h', a)"
  shows "prefix h h'" and "a = length h" and "deref h' a = Some c" and "length h' = Suc (length h)"
  using assms by (auto simp: alloc_def deref_def)

lemma deref_prefix:
  assumes "prefix h h'" and "deref h a = Some c"
  shows "deref h' a = Some c"
  using assms by (auto simp: deref_def prefix_def nth_append split: if_splits)

lemma deref_valid: "deref h a = Some c \<Longrightarrow> a < length h"
  by (simp add: deref_def split: if_splits)

lemma reduce_types_frame:
  "reduce_types skip props keys h l = Inr (h', l') \<Longrightarrow> prefix h h' \<and> l \<le> l'"
proof (induction skip props keys h l rule: reduce_types.induct)
  case (1 skip props h localTypes)
  then show ?case by simp
next
  case (2 skip props key keys h localTypes)
  show ?case
  proof (cases "skip key")
    case True
    with 2 show ?thesis by simp
  next
    case False
    with "2.prems" obtain localProps table where
      d: "deref h localTypes = Some (Types localProps)" and m: "map_of props key = Some table"
      by (auto split: option.splits cell.splits)
    obtain h1 l1 where a: "alloc h (Types (set_own key table localProps)) = (h1, l1)"
      by (cases "alloc h (Types (set_own key table localProps))")
    from "2.prems" False d m a have r: "reduce_types skip props keys h1 l1 = Inr (h', l')"
      by simp
    from "2.IH"(2) [OF False _ _ _ _ _ r] d m a
    have "prefix h1 h' \<and> l1 \<le> l'" by simp
    moreover from alloc_frame [OF a] have "prefix h h1" and "l1 = length h" by simp_all
    moreover from deref_valid [OF d] have "localTypes < length h" .
    ultimately show ?thesis by (auto intro: prefix_order.trans)
  qed
qed

lemma reduce_variations_frame:
  "reduce_variations omitted localType variations h l = Inr (h', l') \<Longrightarrow> prefix h h' \<and> l \<le> l'"
proof (induction omitted localType variations h l rule: reduce_variations.induct)
  case (1 omitted localType h localVariations)
  then show ?case by simp
next
  case (2 omitted localType variation variations h localVariations)
  show ?case
  proof (cases "variation \<in> set omitted")
    case True
    with 2 show ?thesis by simp
  next
    case False
    with "2.prems" obtain localProps where
      d: "deref h localVariations = Some (Table localProps)"
      by (auto split: option.splits cell.splits)
    let ?c = "Table (set_own variation
                (case map_of localType variation of None \<Rightarrow> JUndefined | Some x \<Rightarrow> x) localProps)"
    obtain h1 l1 where a: "alloc h ?c = (h1, l1)"
      by (cases "alloc h ?c")
    from "2.prems" False d a
    have r: "reduce_variations omitted localType variations h1 l1 = Inr (h', l')"
      by simp
    from "2.IH"(2) [OF False d refl a [symmetric] r]
    have "prefix h1 h' \<and> l1 \<le> l'" .
    moreover from alloc_frame [OF a] have "prefix h h1" and "l1 = length h" by simp_all
    moreover from deref_valid [OF d] have "localVariations < length h" .
    ultimately show ?thesis by (auto intro: prefix_order.trans)
  qed
qed

lemma reduce_names_frame:
  "reduce_names omitted props variations names h l = Inr (h', l') \<Longrightarrow> prefix h h' \<and> l \<le> l'"
proof (induction omitted props variations names h l rule: reduce_names.induct)
  case (1 omitted props variations h localTypes)
  then show ?case by simp
next
  case (2 omitted props variations name names h localTypes)
  from "2.prems" obtain table localType where
    m: "map_of props name = Some table" and d: "deref h table = Some (Table localType)"
    by (auto split: option.splits cell.splits)
  obtain h0 initial where a0: "alloc h (Table []) = (h0, initial)"
    by (cases "alloc h (Table [])")
  from "2.prems" m d a0 obtain h1 filteredType where
    rv: "reduce_variations omitted localType variations h0 initial = Inr (h1, filteredType)"
    by (auto split: sum.splits)
  from "2.prems" m d a0 rv obtain localProps where
    dl: "deref h1 localTypes = Some (Types localProps)"
    by (auto split: option.splits cell.splits)
  obtain h2 l2 where a2: "alloc h1 (Types (set_own name filteredType localProps)) = (h2, l2)"
    by (cases "alloc h1 (Types (set_own name filteredType localProps))")
  from "2.prems" m d a0 rv dl a2
  have r: "reduce_names omitted props variations names h2 l2 = Inr (h', l')"
    by simp
  from "2.IH" [OF m d refl a0 [symmetric] rv refl dl refl a2 [symmetric] r]
  have "prefix h2 h' \<and> l2 \<le> l'" .
  moreover from alloc_frame [OF a0] have "prefix h h0" by simp
  moreover from reduce_variations_frame [OF rv] have "prefix h0 h1" by simp
  moreover from alloc_frame [OF a2] have "prefix h1 h2" and "l2 = length h1" by simp_all
  moreover from deref_valid [OF dl] have "localTypes < length h1" .
  ultimately show ?case by (auto intro: prefix_order.trans)
qed

lemma ebind_Inr:
  assumes "ebind x f = Inr y"
  obtains z where "x = Inr z" and "f z = Inr y"
  using assms by (cases x) auto

lemma ofVariations_result:
  assumes "ofVariations h types = Inr (h', b)"
  shows "\<exists>props variations.
           deref h types = Some (Types props)
         \<and> h' = h @ [Bundle types (map fst props) variations] \<and> b = length h"
  using assms
  by (auto simp: ofVariations_def alloc_def Let_def
      split: option.splits cell.splits list.splits if_splits)

lemma ofVariations_fresh:
  assumes o: "ofVariations h1 types = Inr (h', b)" and p: "prefix h h1" and t: "length h \<le> types"
  shows "prefix h h' \<and> fresh_bundle h h' b"
proof -
  from ofVariations_result [OF o] obtain props variations where
    d: "deref h1 types = Some (Types props)" and
    h': "h' = h1 @ [Bundle types (map fst props) variations]" and b: "b = length h1"
    by blast
  from h' have p1: "prefix h1 h'" by simp
  from deref_prefix [OF p1 d] have dt: "deref h' types = Some (Types props)" .
  from h' b have db: "deref h' b = Some (Bundle types (map fst props) variations)"
    by (simp add: deref_def)
  from p have "length h \<le> length h1" by (rule prefix_length_le)
  with b t dt db have "fresh_bundle h h' b" by (simp add: fresh_bundle_def)
  moreover from p p1 have "prefix h h'" by (rule prefix_order.trans)
  ultimately show ?thesis by simp
qed

lemma filtered_union_fresh:
  assumes "filtered_union skip h u = Inr (h', b)"
  shows "prefix h h' \<and> fresh_bundle h h' b"
proof -
  obtain h0 initial where a: "alloc h (Types []) = (h0, initial)"
    by (cases "alloc h (Types [])")
  from assms a obtain props where
    e: "ebind (reduce_types skip props (map fst props) h0 initial)
          (\<lambda>(h1, filteredTypes). ofVariations h1 filteredTypes) = Inr (h', b)"
    by (auto simp: filtered_union_def simp del: reduce_types.simps
        split: option.splits cell.splits)
  from e obtain h1 filteredTypes where
    r: "reduce_types skip props (map fst props) h0 initial = Inr (h1, filteredTypes)" and
    o: "ofVariations h1 filteredTypes = Inr (h', b)"
    by (auto elim!: ebind_Inr)
  from alloc_frame [OF a] have "prefix h h0" and "initial = length h" by simp_all
  moreover from reduce_types_frame [OF r] have "prefix h0 h1" and "initial \<le> filteredTypes"
    by simp_all
  ultimately have "prefix h h1" and "length h \<le> filteredTypes"
    by (auto intro: prefix_order.trans)
  with o show ?thesis by (simp add: ofVariations_fresh)
qed

lemma merge_fresh:
  assumes "merge h u1 u2 = Inr (h', b)"
  shows "prefix h h' \<and> fresh_bundle h h' b"
proof -
  from assms obtain c h1 types where
    a: "alloc h c = (h1, types)" and o: "ofVariations h1 types = Inr (h', b)"
    by (auto simp: merge_def split: option.splits cell.splits prod.splits)
  from alloc_frame [OF a] have "prefix h h1" and "length h \<le> types" by simp_all
  with o show ?thesis by (simp add: ofVariations_fresh)
qed

lemma omitVariations_fresh:
  assumes "omitVariations h u omitted = Inr (h', b)"
  shows "prefix h h' \<and> fresh_bundle h h' b"
proof -
  obtain h0 initial where a: "alloc h (Types []) = (h0, initial)"
    by (cases "alloc h (Types [])")
  from assms a obtain props variations names where
    e: "ebind (reduce_names omitted props variations names h0 initial)
          (\<lambda>(h1, filteredTypes). ofVariations h1 filteredTypes) = Inr (h', b)"
    by (auto simp: omitVariations_def simp del: reduce_names.simps
        split: option.splits cell.splits list.splits)
  from e obtain h1 filteredTypes where
    r: "reduce_names omitted props variations names h0 initial = Inr (h1, filteredTypes)" and
    o: "ofVariations h1 filteredTypes = Inr (h', b)"
    by (auto elim!: ebind_Inr)
  from alloc_frame [OF a] have "prefix h h0" and "initial = length h" by simp_all
  moreover from reduce_names_frame [OF r] have "prefix h0 h1" and "initial \<le> filteredTypes"
    by simp_all
  ultimately have "prefix h h1" and "length h \<le> filteredTypes"
    by (auto intro: prefix_order.trans)
  with o show ?thesis by (simp add: ofVariations_fresh)
qed

text \<open>
  C9. Whenever \<open>omit\<close>, \<open>pick\<close>, \<open>merge\<close> or \<open>omitVariations\<close> returns, every cell of
  the heap it started from is still there, at the same address and with the same content
  (the input bundles, their \<open>types\<close> objects and their variation tables among them), and
  the bundle it returns is new: its own cell and the \<open>types\<close> object it refers to and
  takes its names from were allocated during the call.
\<close>

theorem algebra_pure:
  "(omit h u keys = Inr (h', b) \<longrightarrow> prefix h h' \<and> fresh_bundle h h' b)
 \<and> (pick h u keys = Inr (h', b) \<longrightarrow> prefix h h' \<and> fresh_bundle h h' b)
 \<and> (merge h u u2 = Inr (h', b) \<longrightarrow> prefix h h' \<and> fresh_bundle h h' b)
 \<and> (omitVariations h u keys = Inr (h', b) \<longrightarrow> prefix h h' \<and> fresh_bundle h h' b)"
  using filtered_union_fresh [of "\<lambda>key. key \<in> set keys" h u h' b]
    filtered_union_fresh [of "\<lambda>key. key \<notin> set keys" h u h' b]
    merge_fresh [of h u u2 h' b] omitVariations_fresh [of h u keys h' b]
  by (simp add: omit_def pick_def)


theorem algebra_pure_witness:
  "omit example_heap 3 [''Two'']
     = Inr (example_heap @ [Types [], Types [(''One'', 0)], Bundle 8 [''One''] [''var1'', ''var2'']], 9)
   \<and> prefix example_heap
        (example_heap @ [Types [], Types [(''One'', 0)], Bundle 8 [''One''] [''var1'', ''var2'']])
   \<and> fresh_bundle example_heap
        (example_heap @ [Types [], Types [(''One'', 0)], Bundle 8 [''One''] [''var1'', ''var2'']]) 9
   \<and> pick example_heap 3 [''Two'']
     = Inr (example_heap @ [Types [], Types [(''Two'', 1)], Bundle 8 [''Two''] [''var1'', ''var2'']], 9)
   \<and> fresh_bundle example_heap
        (example_heap @ [Types [], Types [(''Two'', 1)], Bundle 8 [''Two''] [''var1'', ''var2'']]) 9
   \<and> merge example_heap 3 6
     = Inr (example_heap @ [Types [(''One'', 0), (''Two'', 1), (''Three'', 4)],
                            Bundle 7 [''One'', ''Two'', ''Three''] [''var1'', ''var2'']], 8)
   \<and> fresh_bundle example_heap
        (example_heap @ [Types [(''One'', 0), (''Two'', 1), (''Three'', 4)],
                         Bundle 7 [''One'', ''Two'', ''Three''] [''var1'', ''var2'']]) 8
   \<and> omitVariations example_heap 3 [''var2'']
     = Inr (example_heap @ [Types [], Table [], Table [(''var1'', JUndefined)], Types [(''One'', 9)],
                            Table [], Table [(''var1'', JUndefined)],
                            Types [(''One'', 9), (''Two'', 12)],
                            Bundle 13 [''One'', ''Two''] [''var1'']], 14)
   \<and> fresh_bundle example_heap
        (example_heap @ [Types [], Table [], Table [(''var1'', JUndefined)], Types [(''One'', 9)],
                         Table [], Table [(''var1'', JUndefined)],
                         Types [(''One'', 9), (''Two'', 12)],
                         Bundle 13 [''One'', ''Two''] [''var1'']]) 14"
proof -
  let ?o = "example_heap @ [Types [], Types [(''One'', 0)], Bundle 8 [''One''] [''var1'', ''var2'']]"
  let ?p = "example_heap @ [Types [], Types [(''Two'', 1)], Bundle 8 [''Two''] [''var1'', ''var2'']]"
  let ?m = "example_heap @ [Types [(''One'', 0), (''Two'', 1), (''Three'', 4)],
                            Bundle 7 [''One'', ''Two'', ''Three''] [''var1'', ''var2'']]"
  let ?v = "example_heap @ [Types [], Table [], Table [(''var1'', JUndefined)], Types [(''One'', 9)],
                            Table [], Table [(''var1'', JUndefined)],
                            Types [(''One'', 9), (''Two'', 12)],
                            Bundle 13 [''One'', ''Two''] [''var1'']]"
  have o: "omit example_heap 3 [''Two''] = Inr (?o, 9)"
    by (simp add: example_heap_def omit_def filtered_union_def deref_def alloc_def
        ofVariations_def readonly_function_keys_def Let_def eval_nat_numeral)
  have p: "pick example_heap 3 [''Two''] = Inr (?p, 9)"
    by (simp add: example_heap_def pick_def filtered_union_def deref_def alloc_def
        ofVariations_def readonly_function_keys_def Let_def eval_nat_numeral)
  have m: "merge example_heap 3 6 = Inr (?m, 8)"
    by (simp add: example_heap_def merge_def deref_def alloc_def
        ofVariations_def readonly_function_keys_def Let_def eval_nat_numeral)
  have v: "omitVariations example_heap 3 [''var2''] = Inr (?v, 14)"
    by (simp add: example_heap_def omitVariations_def deref_def alloc_def
        ofVariations_def readonly_function_keys_def Let_def eval_nat_numeral)
  from algebra_pure [of example_heap 3 "[''Two'']" ?o 9] o
  have "prefix example_heap ?o \<and> fresh_bundle example_heap ?o 9" by simp
  moreover from algebra_pure [of example_heap 3 "[''Two'']" ?p 9] p
  have "fresh_bundle example_heap ?p 9" by simp
  moreover from algebra_pure [of example_heap 3 _ ?m 8 6] m
  have "fresh_bundle example_heap ?m 8" by simp
  moreover from algebra_pure [of example_heap 3 "[''var2'']" ?v 14] v
  have "fresh_bundle example_heap ?v 14" by simp
  ultimately show ?thesis using o p m v by simp
qed


end
